theory Spec2Isabelle
  imports Complex_Main "HOL-Library.AList"
begin

section \<open>Data model\<close>

text \<open>
  The execution service of \<^verbatim>\<open>src/execution_service/app\<close>. A provider sandbox object is
  identified by a number. Python dictionaries are association lists in insertion order
  (\<^const>\<open>map_of\<close> reads a key, \<^const>\<open>AList.update\<close> is \<^verbatim>\<open>d[k] = v\<close>,
  \<^const>\<open>AList.delete\<close> is \<^verbatim>\<open>d.pop(k, None)\<close>), since shutdown iterates over them.
\<close>

type_synonym Sandbox = nat

text \<open>\<^verbatim>\<open>core/config.py\<close>: the settings and their defaults.\<close>

record Settings =
  INTERNAL_AUTH_TOKEN :: string
  INITIAL_POOL_SIZE :: int
  MAX_POOL_SIZE :: int
  DEFAULT_TIMEOUT :: int
  MAX_TIMEOUT :: int
  SUPPORTED_LANGUAGES :: "string list"

definition settings :: Settings where
  "settings =
     \<lparr>INTERNAL_AUTH_TOKEN = ''development-token-replace-in-production'',
      INITIAL_POOL_SIZE = 5, MAX_POOL_SIZE = 20, DEFAULT_TIMEOUT = 30, MAX_TIMEOUT = 300,
      SUPPORTED_LANGUAGES = [''python'', ''node'', ''bash'', ''c'']\<rparr>"

text \<open>\<^verbatim>\<open>models/execution.py\<close>. An absent optional field is \<^const>\<open>None\<close>.\<close>

record ExecutionRequest =
  execution_id :: string
  user_id :: string
  code :: string
  language :: string
  timeout :: int
  session_id :: "string option"
  files :: "(string \<times> string) list option"

record SessionRequest =
  s_language :: string
  s_user_id :: string

text \<open>
  \<^verbatim>\<open>ExecutionResult\<close>. The same record stands for the dictionary that
  \<^verbatim>\<open>execute_code_in_sandbox\<close> returns (keys \<^verbatim>\<open>output\<close>, \<^verbatim>\<open>error\<close>, \<^verbatim>\<open>exit_code\<close> and,
  only when it is set, \<^verbatim>\<open>session_id\<close>): \<open>res_session_id = None\<close> is the absent key.
\<close>

record ExecutionResult =
  res_output :: string
  res_error :: "string option"
  res_exit_code :: int
  res_session_id :: "string option"

text \<open>What \<^verbatim>\<open>process.wait()\<close> of the provider gives back.\<close>

record ProcessOutput =
  stdout :: string
  stderr :: string
  proc_exit_code :: int

text \<open>
  The exceptions that appear: \<^verbatim>\<open>asyncio.TimeoutError\<close>, FastAPI's
  \<^verbatim>\<open>HTTPException(status_code, detail)\<close>, and any other \<^verbatim>\<open>Exception\<close> (a provider error)
  with its \<^verbatim>\<open>str\<close>.
\<close>

datatype exn = TimeoutError | HTTPException int string | ProviderError string

text \<open>The metadata dictionary that the pool manager stamps on a sandbox object.\<close>

record SandboxMetadata =
  md_language :: string
  md_user_id :: "string option"
  md_created_at :: "real option"

text \<open>
  The arguments of one scheduled \<^verbatim>\<open>asyncio.create_task(return_sandbox_to_pool(...))\<close>.
\<close>

record ReturnTask =
  task_sandbox_id :: string
  task_sandbox :: Sandbox
  task_language :: string
  task_reset :: bool

text \<open>
  The module-level dictionaries of \<^verbatim>\<open>main.py\<close>, the metadata attribute of the sandbox
  objects, the tasks scheduled on the event loop and not yet run, and the record of the
  calls made so far: the sandboxes \<^verbatim>\<open>Sandbox.create()\<close> returned, the calls of
  \<^verbatim>\<open>reset_sandbox\<close> with what they returned, and the calls of \<^verbatim>\<open>sandbox.close()\<close>.
\<close>

record PoolState =
  available_sandboxes :: "(string \<times> Sandbox list) list"
  active_sandboxes :: "(string \<times> Sandbox) list"
  session_sandboxes :: "(string \<times> Sandbox) list"
  user_sessions :: "(string \<times> string list) list"
  sandbox_metadata :: "(Sandbox \<times> SandboxMetadata) list"
  scheduled_tasks :: "ReturnTask list"
  created_log :: "Sandbox list"
  reset_log :: "(Sandbox \<times> bool) list"
  closed_log :: "Sandbox list"

text \<open>
  What the world outside answers during one operation: the provider's replies (for a
  command, the reply to starting it and to waiting for it), the identifiers drawn by
  \<^verbatim>\<open>uuid.uuid4()\<close> in the pool manager and in a handler, the clock, whether the
  deadline of \<^verbatim>\<open>asyncio.wait_for\<close> with a given timeout fires before the handler is
  done, and the framework's \<^verbatim>\<open>str\<close> of an \<^verbatim>\<open>HTTPException\<close>.
\<close>

record Environment =
  Sandbox_create :: "exn + Sandbox"
  Sandbox_close :: "Sandbox \<Rightarrow> exn option"
  start_command :: "Sandbox \<Rightarrow> string \<Rightarrow> exn + ProcessOutput"
  start_python :: "Sandbox \<Rightarrow> string \<Rightarrow> exn + ProcessOutput"
  filesystem_write :: "Sandbox \<Rightarrow> string \<Rightarrow> string \<Rightarrow> exn option"
  uuid4 :: string
  handler_uuid4 :: string
  time_time :: real
  deadline_fires :: "int \<Rightarrow> bool"
  http_exception_str :: "int \<Rightarrow> string \<Rightarrow> string"

definition empty_state :: PoolState where
  "empty_state =
     \<lparr>available_sandboxes = [], active_sandboxes = [], session_sandboxes = [],
      user_sessions = [], sandbox_metadata = [], scheduled_tasks = [],
      created_log = [], reset_log = [], closed_log = []\<rparr>"

text \<open>\<^verbatim>\<open>str(e)\<close> as the generic handler of \<^verbatim>\<open>execute_code_in_sandbox\<close> uses it.\<close>

fun str_exn :: "Environment \<Rightarrow> exn \<Rightarrow> string" where
  "str_exn env TimeoutError = []"
| "str_exn env (HTTPException status detail) = http_exception_str env status detail"
| "str_exn env (ProviderError msg) = msg"

section \<open>Language handlers\<close>

text \<open>\<^verbatim>\<open>language_handlers/__init__.py\<close>: the registry and its lookup.\<close>

datatype LanguageHandler = PythonHandler | NodeHandler | BashHandler | CHandler

definition language_handlers :: "(string \<times> LanguageHandler) list" where
  "language_handlers =
     [(''python'', PythonHandler), (''node'', NodeHandler), (''javascript'', NodeHandler),
      (''bash'', BashHandler), (''shell'', BashHandler), (''c'', CHandler)]"

definition get_language_handler :: "string \<Rightarrow> exn + LanguageHandler" where
  "get_language_handler lang =
     (case map_of language_handlers lang of
        None \<Rightarrow> Inl (HTTPException 400 (''Unsupported language: '' @ lang))
      | Some h \<Rightarrow> Inr h)"

text \<open>
  A handler returns its result or the exception a provider call raised, together with the
  shell commands it started in the sandbox, in order.
\<close>

definition process_result :: "ProcessOutput \<Rightarrow> ExecutionResult" where
  "process_result r =
     \<lparr>res_output = stdout r, res_error = Some (stderr r), res_exit_code = proc_exit_code r,
      res_session_id = None\<rparr>"

definition execute_python ::
  "Environment \<Rightarrow> Sandbox \<Rightarrow> string \<Rightarrow> (exn + ExecutionResult) \<times> string list" where
  "execute_python env sandbox src =
     (case start_python env sandbox src of
        Inl e \<Rightarrow> (Inl e, [])
      | Inr r \<Rightarrow> (Inr (process_result r), []))"

definition execute_node ::
  "Environment \<Rightarrow> Sandbox \<Rightarrow> string \<Rightarrow> (exn + ExecutionResult) \<times> string list" where
  "execute_node env sandbox src =
     (case filesystem_write env sandbox ''/tmp/script.js'' src of
        Some e \<Rightarrow> (Inl e, [])
      | None \<Rightarrow>
          (case start_command env sandbox ''node /tmp/script.js'' of
             Inl e \<Rightarrow> (Inl e, [''node /tmp/script.js''])
           | Inr r \<Rightarrow> (Inr (process_result r), [''node /tmp/script.js''])))"

definition execute_bash ::
  "Environment \<Rightarrow> Sandbox \<Rightarrow> string \<Rightarrow> (exn + ExecutionResult) \<times> string list" where
  "execute_bash env sandbox src =
     (case start_command env sandbox src of
        Inl e \<Rightarrow> (Inl e, [src])
      | Inr r \<Rightarrow> (Inr (process_result r), [src]))"

text \<open>\<^verbatim>\<open>c_handler.py\<close>: write the source, compile it, and run it if it compiled.\<close>

definition execute_c ::
  "Environment \<Rightarrow> Sandbox \<Rightarrow> string \<Rightarrow> (exn + ExecutionResult) \<times> string list" where
  "execute_c env sandbox src =
     (let file_id = take 8 (handler_uuid4 env);
          source_file = ''/tmp/program_'' @ file_id @ ''.c'';
          executable = ''/tmp/program_'' @ file_id;
          compile_cmd = ''gcc -o '' @ executable @ '' '' @ source_file
      in case filesystem_write env sandbox source_file src of
           Some e \<Rightarrow> (Inl e, [])
         | None \<Rightarrow>
             (case start_command env sandbox compile_cmd of
                Inl e \<Rightarrow> (Inl e, [compile_cmd])
              | Inr compile_result \<Rightarrow>
                  if proc_exit_code compile_result \<noteq> 0
                  then (Inr \<lparr>res_output = [],
                             res_error = Some (''Compilation error:'' @ [CHR 0x0A]
                                           @ stderr compile_result),
                             res_exit_code = proc_exit_code compile_result,
                             res_session_id = None\<rparr>,
                        [compile_cmd])
                  else
                    (case start_command env sandbox executable of
                       Inl e \<Rightarrow> (Inl e, [compile_cmd, executable])
                     | Inr run_result \<Rightarrow>
                         (Inr (process_result run_result), [compile_cmd, executable]))))"

fun handler_execute ::
  "LanguageHandler \<Rightarrow> Environment \<Rightarrow> Sandbox \<Rightarrow> string
     \<Rightarrow> (exn + ExecutionResult) \<times> string list" where
  "handler_execute PythonHandler = execute_python"
| "handler_execute NodeHandler = execute_node"
| "handler_execute BashHandler = execute_bash"
| "handler_execute CHandler = execute_c"

section \<open>Sandbox pool\<close>

text \<open>\<^verbatim>\<open>services/sandbox_pool.py\<close>. Every function takes the state and returns the new one.\<close>

text \<open>\<^verbatim>\<open>d.get(k, [])\<close>, and \<^verbatim>\<open>d[k]\<close> where the key has just been ensured.\<close>

definition dict_get :: "('k \<times> 'v list) list \<Rightarrow> 'k \<Rightarrow> 'v list" where
  "dict_get d k = (case map_of d k of None \<Rightarrow> [] | Some v \<Rightarrow> v)"

text \<open>Python's truth value of an optional string: \<^verbatim>\<open>None\<close> and \<^verbatim>\<open>""\<close> are false.\<close>

definition truthy :: "string option \<Rightarrow> bool" where
  "truthy s = (case s of None \<Rightarrow> False | Some v \<Rightarrow> v \<noteq> [])"

definition create_sandbox :: "Environment \<Rightarrow> PoolState \<Rightarrow> Sandbox option \<times> PoolState" where
  "create_sandbox env st =
     (case Sandbox_create env of
        Inl e \<Rightarrow> (None, st)
      | Inr sandbox \<Rightarrow> (Some sandbox, st\<lparr>created_log := created_log st @ [sandbox]\<rparr>))"

definition reset_sandbox :: "Environment \<Rightarrow> Sandbox \<Rightarrow> PoolState \<Rightarrow> bool \<times> PoolState" where
  "reset_sandbox env sandbox st =
     (case start_command env sandbox ''rm -rf /tmp/* && rm -rf /home/user/*'' of
        Inr p \<Rightarrow> (True, st\<lparr>reset_log := reset_log st @ [(sandbox, True)]\<rparr>)
      | Inl e \<Rightarrow> (False, st\<lparr>reset_log := reset_log st @ [(sandbox, False)]\<rparr>))"

definition manage_sandbox_pool ::
  "Environment \<Rightarrow> string \<Rightarrow> PoolState \<Rightarrow> Sandbox option \<times> PoolState" where
  "manage_sandbox_pool env lang st =
     (case dict_get (available_sandboxes st) lang of
        sandbox # rest \<Rightarrow>
          (Some sandbox,
           st\<lparr>available_sandboxes := AList.update lang rest (available_sandboxes st)\<rparr>)
      | [] \<Rightarrow> create_sandbox env st)"

text \<open>
  The body of the \<^verbatim>\<open>try\<close> of \<^verbatim>\<open>return_sandbox_to_pool\<close>: the exception it raised, if any,
  and the state reached. \<^verbatim>\<open>reset_sandbox\<close> catches every exception itself and its result
  is not looked at, and the dictionary operations do not raise.
\<close>

definition return_try_body ::
  "Environment \<Rightarrow> ReturnTask \<Rightarrow> PoolState \<Rightarrow> exn option \<times> PoolState" where
  "return_try_body env t st =
     (let st1 = (if task_reset t then snd (reset_sandbox env (task_sandbox t) st) else st);
          avail = available_sandboxes st1;
          avail1 = (if map_of avail (task_language t) = None
                    then AList.update (task_language t) [] avail else avail);
          avail2 = AList.update (task_language t)
                     (dict_get avail1 (task_language t) @ [task_sandbox t]) avail1
      in (None, st1\<lparr>available_sandboxes := avail2\<rparr>))"

text \<open>
  The result is the exception that leaves the task, if any (one raised by
  \<^verbatim>\<open>sandbox.close()\<close> in the handler).
\<close>

definition return_sandbox_to_pool ::
  "Environment \<Rightarrow> ReturnTask \<Rightarrow> PoolState \<Rightarrow> exn option \<times> PoolState" where
  "return_sandbox_to_pool env t st =
     (if map_of (active_sandboxes st) (task_sandbox_id t) \<noteq> None
      then
        (let st1 = st\<lparr>active_sandboxes :=
                        AList.delete (task_sandbox_id t) (active_sandboxes st)\<rparr>
         in case return_try_body env t st1 of
              (None, st2) \<Rightarrow> (None, st2)
            | (Some e, st2) \<Rightarrow>
                (Sandbox_close env (task_sandbox t),
                 st2\<lparr>closed_log := closed_log st2 @ [task_sandbox t]\<rparr>))
      else (None, st))"

text \<open>\<^verbatim>\<open>asyncio.create_task\<close>: the task runs later, see \<open>run_scheduled_task\<close>.\<close>

definition create_task :: "ReturnTask \<Rightarrow> PoolState \<Rightarrow> PoolState" where
  "create_task t st = st\<lparr>scheduled_tasks := scheduled_tasks st @ [t]\<rparr>"

definition run_scheduled_task :: "Environment \<Rightarrow> PoolState \<Rightarrow> PoolState" where
  "run_scheduled_task env st =
     (case scheduled_tasks st of
        [] \<Rightarrow> st
      | t # ts \<Rightarrow> snd (return_sandbox_to_pool env t (st\<lparr>scheduled_tasks := ts\<rparr>)))"

section \<open>Execution coordinator\<close>

text \<open>Line 100, under the comment \<^verbatim>\<open># Validate timeout\<close>.\<close>

definition validated_timeout :: "Settings \<Rightarrow> ExecutionRequest \<Rightarrow> int" where
  "validated_timeout cfg request = min (timeout request) (MAX_TIMEOUT cfg)"

text \<open>
  Lines 103 to 117: the sandbox and its identifier, from the session registry or from the
  pool. \<open>existing_session\<close> is the test of line 103.
\<close>

definition existing_session :: "ExecutionRequest \<Rightarrow> PoolState \<Rightarrow> (string \<times> Sandbox) option" where
  "existing_session request st =
     (case session_id request of
        None \<Rightarrow> None
      | Some sid \<Rightarrow>
          if sid = [] then None
          else (case map_of (session_sandboxes st) sid of
                  None \<Rightarrow> None
                | Some sandbox \<Rightarrow> Some (sid, sandbox)))"

definition acquire_sandbox ::
  "Environment \<Rightarrow> ExecutionRequest \<Rightarrow> PoolState \<Rightarrow> (exn + Sandbox \<times> string) \<times> PoolState" where
  "acquire_sandbox env request st =
     (case existing_session request st of
        Some (sid, sandbox) \<Rightarrow> (Inr (sandbox, sid), st)
      | None \<Rightarrow>
          (case manage_sandbox_pool env (language request) st of
             (None, st1) \<Rightarrow> (Inl (HTTPException 503 ''No sandbox available''), st1)
           | (Some sandbox, st1) \<Rightarrow>
               (Inr (sandbox, uuid4 env),
                st1\<lparr>active_sandboxes := AList.update (uuid4 env) sandbox (active_sandboxes st1),
                    sandbox_metadata :=
                      AList.update sandbox
                        \<lparr>md_language = language request, md_user_id = None,
                         md_created_at = None\<rparr>
                        (sandbox_metadata st1)\<rparr>)))"

text \<open>The file uploads of lines 124 to 126, in the order of the dictionary.\<close>

fun write_files :: "Environment \<Rightarrow> Sandbox \<Rightarrow> (string \<times> string) list \<Rightarrow> exn option" where
  "write_files env sandbox [] = None"
| "write_files env sandbox ((file_path, file_content) # rest) =
     (case filesystem_write env sandbox file_path file_content of
        Some e \<Rightarrow> Some e
      | None \<Rightarrow> write_files env sandbox rest)"

text \<open>
  The body of the \<^verbatim>\<open>try\<close> of lines 119 to 133, up to the handler's result: the handler
  lookup, the file uploads, and the handler under \<^verbatim>\<open>asyncio.wait_for\<close>.
\<close>

definition execute_try_body ::
  "Environment \<Rightarrow> int \<Rightarrow> ExecutionRequest \<Rightarrow> Sandbox \<Rightarrow> exn + ExecutionResult" where
  "execute_try_body env tmo request sandbox =
     (case get_language_handler (language request) of
        Inl e \<Rightarrow> Inl e
      | Inr language_handler \<Rightarrow>
          (case write_files env sandbox (case files request of None \<Rightarrow> [] | Some fs \<Rightarrow> fs) of
             Some e \<Rightarrow> Inl e
           | None \<Rightarrow>
               if deadline_fires env tmo then Inl TimeoutError
               else fst (handler_execute language_handler env sandbox (code request))))"

text \<open>
  The arguments of the three calls of \<^verbatim>\<open>return_sandbox_to_pool\<close>; \<^verbatim>\<open>reset\<close> is true in
  each, by default or explicitly.
\<close>

definition return_task :: "string \<Rightarrow> Sandbox \<Rightarrow> ExecutionRequest \<Rightarrow> ReturnTask" where
  "return_task sandbox_id sandbox request =
     \<lparr>task_sandbox_id = sandbox_id, task_sandbox = sandbox,
      task_language = language request, task_reset = True\<rparr>"

definition execute_code_in_sandbox ::
  "Settings \<Rightarrow> Environment \<Rightarrow> ExecutionRequest \<Rightarrow> PoolState
     \<Rightarrow> (exn + ExecutionResult) \<times> PoolState" where
  "execute_code_in_sandbox cfg env request st =
     (let tmo = validated_timeout cfg request
      in case acquire_sandbox env request st of
           (Inl e, st1) \<Rightarrow> (Inl e, st1)
         | (Inr (sandbox, sandbox_id), st1) \<Rightarrow>
             (case execute_try_body env tmo request sandbox of
                Inr result \<Rightarrow>
                  (Inr \<lparr>res_output = res_output result, res_error = res_error result,
                        res_exit_code = res_exit_code result,
                        res_session_id =
                          (if truthy (session_id request) then session_id request
                           else None)\<rparr>,
                   if \<not> truthy (session_id request)
                   then create_task (return_task sandbox_id sandbox request) st1
                   else st1)
              | Inl TimeoutError \<Rightarrow>
                  (Inr \<lparr>res_output = [], res_error = Some ''Execution timed out'',
                        res_exit_code = - 1, res_session_id = None\<rparr>,
                   if \<not> truthy (session_id request)
                   then create_task (return_task sandbox_id sandbox request) st1
                   else st1)
              | Inl e \<Rightarrow>
                  (Inr \<lparr>res_output = [], res_error = Some (str_exn env e),
                        res_exit_code = - 1, res_session_id = None\<rparr>,
                   if \<not> truthy (session_id request)
                   then create_task (return_task sandbox_id sandbox request) st1
                   else st1)))"

section \<open>Sessions\<close>

record SessionInfo =
  info_session_id :: string
  info_language :: string
  info_message :: string

definition create_session_with_sandbox ::
  "Environment \<Rightarrow> SessionRequest \<Rightarrow> PoolState \<Rightarrow> (exn + SessionInfo) \<times> PoolState" where
  "create_session_with_sandbox env request st =
     (case manage_sandbox_pool env (s_language request) st of
        (None, st1) \<Rightarrow> (Inl (HTTPException 503 ''No sandbox available''), st1)
      | (Some sandbox, st1) \<Rightarrow>
          (let sid = uuid4 env;
               users = user_sessions st1;
               users1 = (if map_of users (s_user_id request) = None
                         then AList.update (s_user_id request) [] users else users);
               users2 = AList.update (s_user_id request)
                          (dict_get users1 (s_user_id request) @ [sid]) users1
           in (Inr \<lparr>info_session_id = sid, info_language = s_language request,
                    info_message = ''Session created successfully''\<rparr>,
               st1\<lparr>session_sandboxes := AList.update sid sandbox (session_sandboxes st1),
                   user_sessions := users2,
                   sandbox_metadata :=
                     AList.update sandbox
                       \<lparr>md_language = s_language request,
                        md_user_id = Some (s_user_id request),
                        md_created_at = Some (time_time env)\<rparr>
                       (sandbox_metadata st1)\<rparr>)))"

section \<open>Shutdown\<close>

text \<open>
  One loop of \<^verbatim>\<open>cleanup_sandboxes\<close>: \<^verbatim>\<open>await sandbox.close()\<close> for each sandbox in turn.
  An exception of the provider leaves the loop and the function.
\<close>

fun close_all :: "Environment \<Rightarrow> Sandbox list \<Rightarrow> PoolState \<Rightarrow> exn option \<times> PoolState" where
  "close_all env [] st = (None, st)"
| "close_all env (sandbox # rest) st =
     (case Sandbox_close env sandbox of
        Some e \<Rightarrow> (Some e, st\<lparr>closed_log := closed_log st @ [sandbox]\<rparr>)
      | None \<Rightarrow> close_all env rest (st\<lparr>closed_log := closed_log st @ [sandbox]\<rparr>))"

definition cleanup_sandboxes :: "Environment \<Rightarrow> PoolState \<Rightarrow> exn option \<times> PoolState" where
  "cleanup_sandboxes env st =
     (case close_all env (concat (map snd (available_sandboxes st))) st of
        (Some e, st1) \<Rightarrow> (Some e, st1)
      | (None, st1) \<Rightarrow>
          (case close_all env (map snd (active_sandboxes st1)) st1 of
             (Some e, st2) \<Rightarrow> (Some e, st2)
           | (None, st2) \<Rightarrow> close_all env (map snd (session_sandboxes st2)) st2))"

text \<open>\<^verbatim>\<open>main.py\<close>: the shutdown hook runs the cleanup on the module's dictionaries.\<close>

definition shutdown_event :: "Environment \<Rightarrow> PoolState \<Rightarrow> exn option \<times> PoolState" where
  "shutdown_event env st = cleanup_sandboxes env st"

section \<open>HTTP surface\<close>

text \<open>\<^verbatim>\<open>core/security.py\<close> and the \<^verbatim>\<open>/execute\<close> endpoint of \<^verbatim>\<open>main.py\<close>.\<close>

definition validate_internal_token :: "Settings \<Rightarrow> string option \<Rightarrow> exn + bool" where
  "validate_internal_token cfg token =
     (if \<not> truthy token then Inl (HTTPException 403 ''No authentication token provided'')
      else if token \<noteq> Some (INTERNAL_AUTH_TOKEN cfg)
      then Inl (HTTPException 403 ''Invalid authentication token'')
      else Inr True)"

definition execute_code ::
  "Settings \<Rightarrow> Environment \<Rightarrow> ExecutionRequest \<Rightarrow> string option \<Rightarrow> PoolState
     \<Rightarrow> (exn + ExecutionResult) \<times> PoolState" where
  "execute_code cfg env request internal_auth_token st =
     (case validate_internal_token cfg internal_auth_token of
        Inl e \<Rightarrow> (Inl e, st)
      | Inr ok \<Rightarrow> execute_code_in_sandbox cfg env request st)"

text \<open>
  The status of the HTTP response FastAPI sends: the status of a raised
  \<^verbatim>\<open>HTTPException\<close>, 500 for any other exception, 200 for a returned value.
\<close>

fun http_status :: "exn + 'a \<Rightarrow> int" where
  "http_status (Inr v) = 200"
| "http_status (Inl (HTTPException status detail)) = status"
| "http_status (Inl e) = 500"

text \<open>Sandboxes created and not closed.\<close>

definition live_count :: "PoolState \<Rightarrow> int" where
  "live_count st = int (length (created_log st)) - int (length (closed_log st))"

section \<open>Observing the pool\<close>

text \<open>
  The sandboxes the three containers hold, in the order in which \<open>cleanup_sandboxes\<close>
  visits them.
\<close>

definition held_sandboxes :: "PoolState \<Rightarrow> Sandbox list" where
  "held_sandboxes st =
     concat (map snd (available_sandboxes st)) @ map snd (active_sandboxes st)
       @ map snd (session_sandboxes st)"

text \<open>
  A run of checkouts and returns, observed at the idle queue of one language \<open>L\<close>: the
  sandboxes a checkout took from that queue (as opposed to created), and the sandboxes a
  return put into it (a return whose identifier is not in the active set does nothing),
  each in order of time.
\<close>

datatype pool_op = Checkout Environment string | Return Environment ReturnTask

fun run_pool_ops ::
  "string \<Rightarrow> pool_op list \<Rightarrow> PoolState \<Rightarrow> (Sandbox list \<times> Sandbox list) \<times> PoolState" where
  "run_pool_ops L [] st = (([], []), st)"
| "run_pool_ops L (Checkout env lang # ops) st =
     (case manage_sandbox_pool env lang st of
        (r, st1) \<Rightarrow>
          (case run_pool_ops L ops st1 of
             ((issued, released), st2) \<Rightarrow>
               (((if lang = L \<and> dict_get (available_sandboxes st) L \<noteq> []
                  then (case r of None \<Rightarrow> [] | Some sandbox \<Rightarrow> [sandbox]) else []) @ issued,
                 released), st2)))"
| "run_pool_ops L (Return env t # ops) st =
     (case return_sandbox_to_pool env t st of
        (e, st1) \<Rightarrow>
          (case run_pool_ops L ops st1 of
             ((issued, released), st2) \<Rightarrow>
               ((issued,
                 (if task_language t = L
                     \<and> map_of (active_sandboxes st) (task_sandbox_id t) \<noteq> None
                  then [task_sandbox t] else []) @ released), st2)))"

section \<open>Concrete scenarios\<close>

text \<open>
  A provider that answers every call, with a deadline that fires only for a timeout that
  is not positive (as \<^verbatim>\<open>asyncio.wait_for\<close> does at once); variations of it; the requests
  of the end-to-end scenarios; and the states a few calls reach from the empty one.
\<close>

definition calm_env :: Environment where
  "calm_env =
     \<lparr>Sandbox_create = Inr 1,
      Sandbox_close = (\<lambda>sandbox. None),
      start_command = (\<lambda>sandbox cmd. Inr \<lparr>stdout = ''ok'', stderr = [], proc_exit_code = 0\<rparr>),
      start_python = (\<lambda>sandbox src. Inr \<lparr>stdout = ''2'', stderr = [], proc_exit_code = 0\<rparr>),
      filesystem_write = (\<lambda>sandbox file_path file_content. None),
      uuid4 = ''11111111-2222-4333-8444-555555555555'',
      handler_uuid4 = ''abcdef01-2222-4333-8444-555555555555'',
      time_time = 0,
      deadline_fires = (\<lambda>tmo. tmo \<le> 0),
      http_exception_str = (\<lambda>status detail. detail)\<rparr>"

definition gcc_fails_env :: Environment where
  "gcc_fails_env =
     calm_env\<lparr>start_command := (\<lambda>sandbox cmd.
        if take 3 cmd = ''gcc''
        then Inr \<lparr>stdout = [], stderr = ''x undeclared'', proc_exit_code = 1\<rparr>
        else Inr \<lparr>stdout = ''ran'', stderr = [], proc_exit_code = 0\<rparr>)\<rparr>"

definition slow_env :: Environment where
  "slow_env = calm_env\<lparr>deadline_fires := (\<lambda>tmo. True)\<rparr>"

definition second_env :: Environment where
  "second_env = calm_env\<lparr>Sandbox_create := Inr 2,
                         uuid4 := ''66666666-7777-4888-9999-aaaaaaaaaaaa''\<rparr>"

definition reset_fails_env :: Environment where
  "reset_fails_env =
     calm_env\<lparr>start_command := (\<lambda>sandbox cmd. Inl (ProviderError ''sandbox disconnected''))\<rparr>"

definition one_sandbox_settings :: Settings where
  "one_sandbox_settings = settings\<lparr>MAX_POOL_SIZE := 1\<rparr>"

definition python_request :: ExecutionRequest where
  "python_request =
     \<lparr>execution_id = ''e-1'', user_id = ''u-1'', code = ''print(1+1)'',
      language = ''python'', timeout = 30, session_id = None, files = None\<rparr>"

definition session_request :: ExecutionRequest where
  "session_request =
     python_request\<lparr>session_id := Some ''11111111-2222-4333-8444-555555555555''\<rparr>"

definition missing_session_request :: ExecutionRequest where
  "missing_session_request = python_request\<lparr>session_id := Some ''no-such-session''\<rparr>"

definition ruby_request :: ExecutionRequest where
  "ruby_request = python_request\<lparr>language := ''ruby''\<rparr>"

text \<open>After one session has been created.\<close>

definition one_session_state :: PoolState where
  "one_session_state =
     snd (create_session_with_sandbox calm_env
            \<lparr>s_language = ''python'', s_user_id = ''u-1''\<rparr> empty_state)"

text \<open>After one ephemeral execution has answered, before and after its return task ran.\<close>

definition in_flight_state :: PoolState where
  "in_flight_state = snd (execute_code_in_sandbox settings calm_env python_request empty_state)"

definition one_idle_state :: PoolState where
  "one_idle_state = run_scheduled_task calm_env in_flight_state"

text \<open>One idle sandbox and two ephemeral executions in flight, all for one language.\<close>

definition two_in_flight_state :: PoolState where
  "two_in_flight_state =
     empty_state\<lparr>available_sandboxes := [(''python'', [1])],
       active_sandboxes := [(''id-a'', 5), (''id-b'', 6)],
       created_log := [1, 5, 6]\<rparr>"

definition release_then_checkout :: "pool_op list" where
  "release_then_checkout =
     [Return calm_env \<lparr>task_sandbox_id = ''id-a'', task_sandbox = 5,
                        task_language = ''python'', task_reset = True\<rparr>,
      Return calm_env \<lparr>task_sandbox_id = ''id-b'', task_sandbox = 6,
                        task_language = ''python'', task_reset = True\<rparr>,
      Checkout calm_env ''python'', Checkout calm_env ''python'', Checkout calm_env ''python'']"

section \<open>Auxiliary facts\<close>

lemmas eval_defs = one_session_state_def in_flight_state_def one_idle_state_def
  create_session_with_sandbox_def execute_code_in_sandbox_def acquire_sandbox_def
  existing_session_def manage_sandbox_pool_def create_sandbox_def dict_get_def
  execute_try_body_def get_language_handler_def language_handlers_def
  execute_python_def process_result_def validated_timeout_def settings_def
  return_task_def create_task_def truthy_def run_scheduled_task_def
  return_sandbox_to_pool_def return_try_body_def reset_sandbox_def
  calm_env_def second_env_def reset_fails_env_def slow_env_def empty_state_def
  python_request_def session_request_def missing_session_request_def ruby_request_def
  one_sandbox_settings_def live_count_def Let_def shutdown_event_def cleanup_sandboxes_def

lemma one_session_state_eq:
  "one_session_state =
     \<lparr>available_sandboxes = [], active_sandboxes = [],
      session_sandboxes = [(''11111111-2222-4333-8444-555555555555'', 1)],
      user_sessions = [(''u-1'', [''11111111-2222-4333-8444-555555555555''])],
      sandbox_metadata = [(1, \<lparr>md_language = ''python'', md_user_id = Some ''u-1'',
                               md_created_at = Some 0\<rparr>)],
      scheduled_tasks = [], created_log = [1], reset_log = [], closed_log = []\<rparr>"
  by (simp add: eval_defs)

lemma in_flight_state_eq:
  "in_flight_state =
     \<lparr>available_sandboxes = [],
      active_sandboxes = [(''11111111-2222-4333-8444-555555555555'', 1)],
      session_sandboxes = [], user_sessions = [],
      sandbox_metadata = [(1, \<lparr>md_language = ''python'', md_user_id = None,
                               md_created_at = None\<rparr>)],
      scheduled_tasks = [\<lparr>task_sandbox_id = ''11111111-2222-4333-8444-555555555555'',
                           task_sandbox = 1, task_language = ''python'', task_reset = True\<rparr>],
      created_log = [1], reset_log = [], closed_log = []\<rparr>"
  by (simp add: eval_defs)

lemma one_idle_state_eq:
  "one_idle_state =
     \<lparr>available_sandboxes = [(''python'', [1])], active_sandboxes = [],
      session_sandboxes = [], user_sessions = [],
      sandbox_metadata = [(1, \<lparr>md_language = ''python'', md_user_id = None,
                               md_created_at = None\<rparr>)],
      scheduled_tasks = [], created_log = [1], reset_log = [(1, True)], closed_log = []\<rparr>"
  unfolding one_idle_state_def in_flight_state_eq
  by (simp add: run_scheduled_task_def return_sandbox_to_pool_def return_try_body_def
        reset_sandbox_def calm_env_def dict_get_def Let_def)

lemma dict_get_update:
  "dict_get (AList.update k v d) k' = (if k' = k then v else dict_get d k')"
  by (simp add: dict_get_def update_conv')

lemma existing_session_iff:
  "existing_session request st = Some (sid, sandbox) \<longleftrightarrow>
     session_id request = Some sid \<and> sid \<noteq> []
       \<and> map_of (session_sandboxes st) sid = Some sandbox"
  by (auto simp: existing_session_def split: option.splits if_splits)

section \<open>Capacity\<close>

text \<open>
  C1. The pool never consults \<open>MAX_POOL_SIZE\<close>. With the cap set to 1 and one session open
  (one live sandbox), an execution without a session finds the idle queue empty, has the
  provider create a second sandbox, and answers with status 200: two sandboxes are live.
\<close>

theorem pool_cap_not_enforced:
  "MAX_POOL_SIZE one_sandbox_settings = 1
   \<and> live_count one_session_state = 1
   \<and> http_status (fst (execute_code_in_sandbox one_sandbox_settings second_env python_request
                         one_session_state)) = 200
   \<and> created_log (snd (execute_code_in_sandbox one_sandbox_settings second_env python_request
                         one_session_state)) = [1, 2]
   \<and> live_count (snd (execute_code_in_sandbox one_sandbox_settings second_env python_request
                         one_session_state)) = 2"
  unfolding one_session_state_eq
  by (simp add: eval_defs)

section \<open>Requests the coordinator should refuse\<close>

text \<open>
  C2. A request naming a session that the registry does not hold is served like an
  ephemeral one: it takes the idle sandbox out of the pool, records it in the active set,
  and answers with status 200 and the unknown session identifier. No return task is
  scheduled, so the sandbox stays in the active set.
\<close>

theorem unknown_session_takes_pool_sandbox:
  "map_of (session_sandboxes one_idle_state) ''no-such-session'' = None
   \<and> execute_code_in_sandbox settings second_env missing_session_request one_idle_state =
       (Inr \<lparr>res_output = ''2'', res_error = Some [], res_exit_code = 0,
             res_session_id = Some ''no-such-session''\<rparr>,
        one_idle_state\<lparr>available_sandboxes := [(''python'', [])],
          active_sandboxes := [(''66666666-7777-4888-9999-aaaaaaaaaaaa'', 1)]\<rparr>)
   \<and> http_status (fst (execute_code_in_sandbox settings second_env missing_session_request
                         one_idle_state)) = 200"
  unfolding one_idle_state_eq
  by (simp add: eval_defs)

text \<open>
  C3. For the language \<^verbatim>\<open>ruby\<close> the registry lookup raises the exception with status 400,
  but inside the \<^verbatim>\<open>try\<close>, after a sandbox has been created and recorded in the active
  set; the generic handler turns it into a returned value, so the status is 200.
\<close>

theorem unsupported_language_after_acquire:
  "get_language_handler ''ruby'' = Inl (HTTPException 400 ''Unsupported language: ruby'')
   \<and> http_status (fst (execute_code_in_sandbox settings calm_env ruby_request empty_state)) = 200
   \<and> fst (execute_code_in_sandbox settings calm_env ruby_request empty_state) =
       Inr \<lparr>res_output = [],
            res_error = Some (http_exception_str calm_env 400 ''Unsupported language: ruby''),
            res_exit_code = - 1, res_session_id = None\<rparr>
   \<and> created_log (snd (execute_code_in_sandbox settings calm_env ruby_request empty_state)) = [1]
   \<and> active_sandboxes (snd (execute_code_in_sandbox settings calm_env ruby_request empty_state))
       = [(''11111111-2222-4333-8444-555555555555'', 1)]"
  by (simp add: eval_defs)

section \<open>Return and reset\<close>

text \<open>
  C4. When the reset command fails, \<open>reset_sandbox\<close> returns \<open>False\<close>, and the return task
  still appends the sandbox to the idle queue of its language; \<open>close\<close> is not called.
\<close>

theorem failed_reset_still_enqueued:
  "run_scheduled_task reset_fails_env in_flight_state =
     in_flight_state\<lparr>available_sandboxes := [(''python'', [1])], active_sandboxes := [],
       scheduled_tasks := [], reset_log := [(1, False)]\<rparr>
   \<and> closed_log (run_scheduled_task reset_fails_env in_flight_state) = []"
  unfolding in_flight_state_eq
  by (simp add: run_scheduled_task_def return_sandbox_to_pool_def return_try_body_def
        reset_sandbox_def reset_fails_env_def calm_env_def dict_get_def Let_def)

section \<open>The timeout\<close>

lemma handler_execute_deadline:
  "handler_execute h (env\<lparr>deadline_fires := f\<rparr>) sandbox src = handler_execute h env sandbox src"
  by (cases h)
     (simp_all add: execute_python_def execute_node_def execute_bash_def execute_c_def Let_def
        split: option.splits sum.splits)

lemma write_files_deadline:
  "write_files (env\<lparr>deadline_fires := f\<rparr>) sandbox fs = write_files env sandbox fs"
  by (induction fs) (auto split: option.splits)

lemma create_sandbox_deadline:
  "create_sandbox (env\<lparr>deadline_fires := f\<rparr>) st = create_sandbox env st"
  by (simp add: create_sandbox_def)

lemma manage_sandbox_pool_deadline:
  "manage_sandbox_pool (env\<lparr>deadline_fires := f\<rparr>) lang st = manage_sandbox_pool env lang st"
  by (simp add: manage_sandbox_pool_def create_sandbox_deadline split: list.splits)

lemma acquire_sandbox_deadline:
  "acquire_sandbox (env\<lparr>deadline_fires := f\<rparr>) request st = acquire_sandbox env request st"
  by (simp add: acquire_sandbox_def manage_sandbox_pool_deadline
        split: option.splits prod.splits)

lemma str_exn_deadline:
  "str_exn (env\<lparr>deadline_fires := f\<rparr>) e = str_exn env e"
  by (cases e) simp_all

text \<open>
  C5, as stated, fails below 1: a request with timeout 0 keeps the timeout 0, and with a
  deadline that fires at once for a timeout that is not positive, the request times out
  where the same request with timeout 1 returns the handler's result.
\<close>

theorem timeout_zero_not_raised:
  "validated_timeout settings (python_request\<lparr>timeout := 0\<rparr>) = 0
   \<and> \<not> (1 \<le> validated_timeout settings (python_request\<lparr>timeout := 0\<rparr>))
   \<and> fst (execute_code_in_sandbox settings calm_env (python_request\<lparr>timeout := 0\<rparr>) empty_state)
       = Inr \<lparr>res_output = [], res_error = Some ''Execution timed out'',
              res_exit_code = - 1, res_session_id = None\<rparr>
   \<and> fst (execute_code_in_sandbox settings calm_env (python_request\<lparr>timeout := 1\<rparr>) empty_state)
       = Inr \<lparr>res_output = ''2'', res_error = Some [], res_exit_code = 0,
              res_session_id = None\<rparr>"
  by (simp add: eval_defs)

text \<open>
  C5, amended. The timeout used is the smaller of the request's timeout and
  \<open>MAX_TIMEOUT\<close>: it never exceeds \<open>MAX_TIMEOUT\<close>, a larger request is lowered to
  \<open>MAX_TIMEOUT\<close>, and a request at or below \<open>MAX_TIMEOUT\<close> is used as it is. The execution
  consults the deadline at that value only: two deadlines that agree there give the same
  result and the same state.
\<close>

theorem timeout_is_min_with_max:
  "validated_timeout cfg request \<le> MAX_TIMEOUT cfg
   \<and> (MAX_TIMEOUT cfg < timeout request \<longrightarrow> validated_timeout cfg request = MAX_TIMEOUT cfg)
   \<and> (timeout request \<le> MAX_TIMEOUT cfg \<longrightarrow> validated_timeout cfg request = timeout request)
   \<and> (f (min (timeout request) (MAX_TIMEOUT cfg)) = g (min (timeout request) (MAX_TIMEOUT cfg))
        \<longrightarrow> execute_code_in_sandbox cfg (env\<lparr>deadline_fires := f\<rparr>) request st
            = execute_code_in_sandbox cfg (env\<lparr>deadline_fires := g\<rparr>) request st)"
proof -
  have body:
    "execute_try_body (env\<lparr>deadline_fires := f\<rparr>) (validated_timeout cfg request) request sb
       = execute_try_body (env\<lparr>deadline_fires := g\<rparr>) (validated_timeout cfg request) request sb"
    if "f (min (timeout request) (MAX_TIMEOUT cfg)) = g (min (timeout request) (MAX_TIMEOUT cfg))"
    for sb
    using that
    by (simp add: execute_try_body_def handler_execute_deadline write_files_deadline
          validated_timeout_def split: sum.splits option.splits)
  have "execute_code_in_sandbox cfg (env\<lparr>deadline_fires := f\<rparr>) request st
            = execute_code_in_sandbox cfg (env\<lparr>deadline_fires := g\<rparr>) request st"
    if "f (min (timeout request) (MAX_TIMEOUT cfg)) = g (min (timeout request) (MAX_TIMEOUT cfg))"
    using body [OF that]
    by (simp add: execute_code_in_sandbox_def acquire_sandbox_deadline str_exn_deadline Let_def
          split: prod.splits sum.splits exn.splits)
  then show ?thesis by (simp add: validated_timeout_def)
qed

theorem timeout_is_min_with_max_witness:
  "MAX_TIMEOUT settings < timeout (python_request\<lparr>timeout := 1000\<rparr>)
   \<and> validated_timeout settings (python_request\<lparr>timeout := 1000\<rparr>) = 300
   \<and> timeout (python_request\<lparr>timeout := - 5\<rparr>) \<le> MAX_TIMEOUT settings
   \<and> validated_timeout settings (python_request\<lparr>timeout := - 5\<rparr>) = - 5
   \<and> execute_code_in_sandbox settings (calm_env\<lparr>deadline_fires := (\<lambda>tmo. tmo \<le> 0)\<rparr>)
        python_request empty_state
      = execute_code_in_sandbox settings (calm_env\<lparr>deadline_fires := (\<lambda>tmo. tmo \<noteq> 30)\<rparr>)
        python_request empty_state"
  using timeout_is_min_with_max [of settings "python_request\<lparr>timeout := 1000\<rparr>"]
    timeout_is_min_with_max [of settings "python_request\<lparr>timeout := - 5\<rparr>"]
    timeout_is_min_with_max [of settings python_request "\<lambda>tmo. tmo \<le> 0" "\<lambda>tmo. tmo \<noteq> 30"
      calm_env empty_state]
  by (simp add: settings_def python_request_def)

section \<open>Executions bound to a session\<close>

text \<open>
  C6, as stated, fails: when the deadline of an execution in the open session fires, the
  session still maps to its sandbox afterwards, \<open>close\<close> has not been called, and the
  result carries no word about the session.
\<close>

theorem session_survives_timeout:
  "deadline_fires slow_env (validated_timeout settings session_request)
   \<and> map_of (session_sandboxes one_session_state) ''11111111-2222-4333-8444-555555555555''
       = Some 1
   \<and> map_of (session_sandboxes
               (snd (execute_code_in_sandbox settings slow_env session_request
                       one_session_state)))
        ''11111111-2222-4333-8444-555555555555'' = Some 1
   \<and> closed_log (snd (execute_code_in_sandbox settings slow_env session_request
                         one_session_state)) = []
   \<and> fst (execute_code_in_sandbox settings slow_env session_request one_session_state)
       = Inr \<lparr>res_output = [], res_error = Some ''Execution timed out'',
              res_exit_code = - 1, res_session_id = None\<rparr>"
  unfolding one_session_state_eq
  by (simp add: eval_defs)

text \<open>
  C6, amended. For an execution in a session that the registry holds, with a known
  language and files that are written, whose deadline fires: the caller receives the
  timeout result (empty output, \<^verbatim>\<open>Execution timed out\<close>, exit code -1, no session
  identifier) and the whole state is as before, so the sandbox stays bound to the session
  and is neither closed nor returned to the pool.
\<close>

theorem session_timeout_keeps_session:
  assumes "session_id request = Some sid" and "sid \<noteq> []"
    and "map_of (session_sandboxes st) sid = Some sandbox"
    and "get_language_handler (language request) = Inr h"
    and "write_files env sandbox (case files request of None \<Rightarrow> [] | Some fs \<Rightarrow> fs) = None"
    and "deadline_fires env (validated_timeout cfg request)"
  shows "execute_code_in_sandbox cfg env request st =
           (Inr \<lparr>res_output = [], res_error = Some ''Execution timed out'',
                 res_exit_code = - 1, res_session_id = None\<rparr>, st)"
proof -
  have ex: "existing_session request st = Some (sid, sandbox)"
    using assms by (simp add: existing_session_iff)
  have body: "execute_try_body env (validated_timeout cfg request) request sandbox
                = Inl TimeoutError"
    using assms(4-6) by (simp add: execute_try_body_def)
  have "truthy (session_id request)" using assms by (simp add: truthy_def)
  then show ?thesis using ex body
    by (simp add: execute_code_in_sandbox_def acquire_sandbox_def Let_def)
qed

theorem session_timeout_keeps_session_witness:
  "session_id session_request = Some ''11111111-2222-4333-8444-555555555555''
   \<and> map_of (session_sandboxes one_session_state) ''11111111-2222-4333-8444-555555555555''
       = Some 1
   \<and> get_language_handler (language session_request) = Inr PythonHandler
   \<and> deadline_fires slow_env (validated_timeout settings session_request)
   \<and> execute_code_in_sandbox settings slow_env session_request one_session_state =
       (Inr \<lparr>res_output = [], res_error = Some ''Execution timed out'',
             res_exit_code = - 1, res_session_id = None\<rparr>, one_session_state)"
proof -
  have a: "session_id session_request = Some ''11111111-2222-4333-8444-555555555555''"
    by (simp add: session_request_def python_request_def)
  have b: "map_of (session_sandboxes one_session_state)
             ''11111111-2222-4333-8444-555555555555'' = Some 1"
    by (simp add: one_session_state_eq)
  have c: "get_language_handler (language session_request) = Inr PythonHandler"
    by (simp add: session_request_def python_request_def get_language_handler_def
          language_handlers_def)
  have d: "write_files slow_env 1
             (case files session_request of None \<Rightarrow> [] | Some fs \<Rightarrow> fs) = None"
    by (simp add: session_request_def python_request_def)
  have e: "deadline_fires slow_env (validated_timeout settings session_request)"
    by (simp add: slow_env_def)
  from session_timeout_keeps_session [OF a _ b c d e] a b c e show ?thesis by simp
qed

text \<open>
  C10. For an execution in a session that the registry holds, when the body of the
  \<^verbatim>\<open>try\<close> (handler lookup, file uploads, handler under the deadline) returns a result:
  the call returns that result with the session identifier added, and the state is
  exactly the state before the call: idle queues, active set, session registry and user
  index are unchanged, and the session still maps to the same sandbox.
\<close>

theorem session_execute_success_frame:
  assumes "session_id request = Some sid" and "sid \<noteq> []"
    and "map_of (session_sandboxes st) sid = Some sandbox"
    and "execute_try_body env (validated_timeout cfg request) request sandbox = Inr result"
  shows "execute_code_in_sandbox cfg env request st =
           (Inr \<lparr>res_output = res_output result, res_error = res_error result,
                 res_exit_code = res_exit_code result, res_session_id = Some sid\<rparr>, st)
         \<and> available_sandboxes (snd (execute_code_in_sandbox cfg env request st))
             = available_sandboxes st
         \<and> active_sandboxes (snd (execute_code_in_sandbox cfg env request st))
             = active_sandboxes st
         \<and> session_sandboxes (snd (execute_code_in_sandbox cfg env request st))
             = session_sandboxes st
         \<and> user_sessions (snd (execute_code_in_sandbox cfg env request st)) = user_sessions st
         \<and> map_of (session_sandboxes (snd (execute_code_in_sandbox cfg env request st))) sid
             = Some sandbox"
proof -
  have ex: "existing_session request st = Some (sid, sandbox)"
    using assms by (simp add: existing_session_iff)
  have "truthy (session_id request)" using assms by (simp add: truthy_def)
  then have "execute_code_in_sandbox cfg env request st =
           (Inr \<lparr>res_output = res_output result, res_error = res_error result,
                 res_exit_code = res_exit_code result, res_session_id = Some sid\<rparr>, st)"
    using ex assms(1,4)
    by (simp add: execute_code_in_sandbox_def acquire_sandbox_def Let_def)
  then show ?thesis using assms(3) by simp
qed

theorem session_execute_success_frame_witness:
  "session_id session_request = Some ''11111111-2222-4333-8444-555555555555''
   \<and> map_of (session_sandboxes one_session_state) ''11111111-2222-4333-8444-555555555555''
       = Some 1
   \<and> execute_try_body calm_env (validated_timeout settings session_request) session_request 1
       = Inr \<lparr>res_output = ''2'', res_error = Some [], res_exit_code = 0,
              res_session_id = None\<rparr>
   \<and> execute_code_in_sandbox settings calm_env session_request one_session_state =
       (Inr \<lparr>res_output = ''2'', res_error = Some [], res_exit_code = 0,
             res_session_id = Some ''11111111-2222-4333-8444-555555555555''\<rparr>,
        one_session_state)"
proof -
  have a: "session_id session_request = Some ''11111111-2222-4333-8444-555555555555''"
    by (simp add: session_request_def python_request_def)
  have b: "map_of (session_sandboxes one_session_state)
             ''11111111-2222-4333-8444-555555555555'' = Some 1"
    by (simp add: one_session_state_eq)
  have c: "execute_try_body calm_env (validated_timeout settings session_request)
             session_request 1
           = Inr \<lparr>res_output = ''2'', res_error = Some [], res_exit_code = 0,
                  res_session_id = None\<rparr>"
    by (simp add: eval_defs)
  from session_execute_success_frame [OF a _ b c] a b c show ?thesis by simp
qed

section \<open>The idle queues are first in, first out\<close>

lemma reset_sandbox_available:
  "available_sandboxes (snd (reset_sandbox env sandbox st)) = available_sandboxes st"
  by (simp add: reset_sandbox_def split: sum.splits)

lemma create_sandbox_available:
  "available_sandboxes (snd (create_sandbox env st)) = available_sandboxes st"
  by (simp add: create_sandbox_def split: sum.splits)

text \<open>The body of the return appends at the tail of the language's queue and never raises.\<close>

lemma return_try_body_queue:
  assumes b: "return_try_body env t st = (e, st')"
  shows "e = None \<and>
     dict_get (available_sandboxes st') L =
       (if L = task_language t then dict_get (available_sandboxes st) L @ [task_sandbox t]
        else dict_get (available_sandboxes st) L)"
proof -
  define st1 where
    "st1 = (if task_reset t then snd (reset_sandbox env (task_sandbox t) st) else st)"
  have a: "available_sandboxes st1 = available_sandboxes st"
    by (simp add: st1_def reset_sandbox_available)
  have e: "e = None" using b by (simp add: return_try_body_def Let_def)
  have s: "available_sandboxes st' =
      AList.update (task_language t)
        (dict_get (if map_of (available_sandboxes st) (task_language t) = None
                   then AList.update (task_language t) [] (available_sandboxes st)
                   else available_sandboxes st) (task_language t) @ [task_sandbox t])
        (if map_of (available_sandboxes st) (task_language t) = None
         then AList.update (task_language t) [] (available_sandboxes st)
         else available_sandboxes st)"
    using b a by (auto simp: return_try_body_def Let_def st1_def)
  have g: "dict_get (available_sandboxes st) (task_language t) = []"
    if "map_of (available_sandboxes st) (task_language t) = None"
    using that by (simp add: dict_get_def)
  show ?thesis using e g by (simp add: s dict_get_update)
qed

lemma return_sandbox_to_pool_queue:
  "dict_get (available_sandboxes (snd (return_sandbox_to_pool env t st))) L =
     (if L = task_language t \<and> map_of (active_sandboxes st) (task_sandbox_id t) \<noteq> None
      then dict_get (available_sandboxes st) L @ [task_sandbox t]
      else dict_get (available_sandboxes st) L)"
proof (cases "map_of (active_sandboxes st) (task_sandbox_id t)")
  case None
  then show ?thesis by (simp add: return_sandbox_to_pool_def)
next
  case (Some a)
  obtain e st' where b: "return_try_body env t
      (st\<lparr>active_sandboxes := AList.delete (task_sandbox_id t) (active_sandboxes st)\<rparr>)
        = (e, st')"
    by (cases "return_try_body env t
      (st\<lparr>active_sandboxes := AList.delete (task_sandbox_id t) (active_sandboxes st)\<rparr>)")
  from return_try_body_queue [OF b, of L] Some b show ?thesis
    by (simp add: return_sandbox_to_pool_def Let_def)
qed

text \<open>A checkout removes the head of the language's queue, if there is one, and returns it.\<close>

lemma manage_sandbox_pool_queue:
  "dict_get (available_sandboxes (snd (manage_sandbox_pool env lang st))) L =
     (if L = lang then tl (dict_get (available_sandboxes st) L)
      else dict_get (available_sandboxes st) L)"
  by (cases "dict_get (available_sandboxes st) lang")
     (simp_all add: manage_sandbox_pool_def create_sandbox_available dict_get_update)

lemma manage_sandbox_pool_head:
  "dict_get (available_sandboxes st) lang = sandbox # rest \<Longrightarrow>
     fst (manage_sandbox_pool env lang st) = Some sandbox"
  by (simp add: manage_sandbox_pool_def)

text \<open>
  C7. In every run of checkouts and returns, from every state and for every language:
  the queue at the start followed by the sandboxes returned to it, in order of time, is
  the sequence of sandboxes issued from it, in order of time, followed by the queue at the
  end. So the sandboxes leave the queue in the order in which they entered it: checkout
  takes the head, return appends at the tail.
\<close>

theorem pool_queue_fifo:
  "dict_get (available_sandboxes st) L @ snd (fst (run_pool_ops L ops st)) =
     fst (fst (run_pool_ops L ops st))
       @ dict_get (available_sandboxes (snd (run_pool_ops L ops st))) L
   \<and> take (length (fst (fst (run_pool_ops L ops st))))
        (dict_get (available_sandboxes st) L @ snd (fst (run_pool_ops L ops st)))
      = fst (fst (run_pool_ops L ops st))"
proof -
  have eq: "dict_get (available_sandboxes st) L @ snd (fst (run_pool_ops L ops st)) =
     fst (fst (run_pool_ops L ops st))
       @ dict_get (available_sandboxes (snd (run_pool_ops L ops st))) L"
  proof (induction ops arbitrary: st)
    case Nil
    then show ?case by simp
  next
    case (Cons op ops)
    show ?case
    proof (cases op)
      case (Checkout env lang)
      obtain r st1 where m: "manage_sandbox_pool env lang st = (r, st1)"
        by (cases "manage_sandbox_pool env lang st")
      obtain issued released st2 where r: "run_pool_ops L ops st1 = ((issued, released), st2)"
        by (cases "run_pool_ops L ops st1") auto
      have ih: "dict_get (available_sandboxes st1) L @ released
                  = issued @ dict_get (available_sandboxes st2) L"
        using Cons.IH [of st1] r by simp
      have q: "dict_get (available_sandboxes st1) L =
                 (if L = lang then tl (dict_get (available_sandboxes st) L)
                  else dict_get (available_sandboxes st) L)"
        using manage_sandbox_pool_queue [of env lang st L] m by simp
      show ?thesis
      proof (cases "lang = L \<and> dict_get (available_sandboxes st) L \<noteq> []")
        case True
        then obtain sandbox rest where
          hd: "dict_get (available_sandboxes st) lang = sandbox # rest"
          by (cases "dict_get (available_sandboxes st) L") auto
        from manage_sandbox_pool_head [OF hd, of env] m have "r = Some sandbox" by simp
        with True hd q ih Checkout m r show ?thesis by simp
      next
        case False
        with q ih Checkout m r show ?thesis by (cases "L = lang") auto
      qed
    next
      case (Return env t)
      obtain e st1 where m: "return_sandbox_to_pool env t st = (e, st1)"
        by (cases "return_sandbox_to_pool env t st")
      obtain issued released st2 where r: "run_pool_ops L ops st1 = ((issued, released), st2)"
        by (cases "run_pool_ops L ops st1") auto
      have ih: "dict_get (available_sandboxes st1) L @ released
                  = issued @ dict_get (available_sandboxes st2) L"
        using Cons.IH [of st1] r by simp
      from return_sandbox_to_pool_queue [of env t st L] m ih Return r show ?thesis
        by (auto split: if_splits)
    qed
  qed
  then show ?thesis by simp
qed

theorem pool_queue_fifo_witness:
  "dict_get (available_sandboxes two_in_flight_state) ''python'' = [1]
   \<and> snd (fst (run_pool_ops ''python'' release_then_checkout two_in_flight_state)) = [5, 6]
   \<and> fst (fst (run_pool_ops ''python'' release_then_checkout two_in_flight_state)) = [1, 5, 6]
   \<and> dict_get (available_sandboxes
                   (snd (run_pool_ops ''python'' release_then_checkout two_in_flight_state)))
         ''python'' = []"
proof -
  have rel: "snd (fst (run_pool_ops ''python'' release_then_checkout two_in_flight_state))
               = [5, 6]"
    by (simp add: release_then_checkout_def two_in_flight_state_def empty_state_def
          return_sandbox_to_pool_def return_try_body_def reset_sandbox_def calm_env_def
          manage_sandbox_pool_def create_sandbox_def dict_get_def Let_def
          split: prod.splits)
  have fin: "dict_get (available_sandboxes
                   (snd (run_pool_ops ''python'' release_then_checkout two_in_flight_state)))
         ''python'' = []"
    by (simp add: release_then_checkout_def two_in_flight_state_def empty_state_def
          return_sandbox_to_pool_def return_try_body_def reset_sandbox_def calm_env_def
          manage_sandbox_pool_def create_sandbox_def dict_get_def Let_def
          split: prod.splits)
  have ini: "dict_get (available_sandboxes two_in_flight_state) ''python'' = [1]"
    by (simp add: two_in_flight_state_def empty_state_def dict_get_def)
  from pool_queue_fifo [of two_in_flight_state "''python''" release_then_checkout] rel fin ini
  show ?thesis by simp
qed

section \<open>Shutdown closes what the containers hold\<close>

lemma close_all_ok:
  "\<forall>sandbox \<in> set sbs. Sandbox_close env sandbox = None \<Longrightarrow>
     close_all env sbs st = (None, st\<lparr>closed_log := closed_log st @ sbs\<rparr>)"
  by (induction sbs arbitrary: st) simp_all

lemma distinct_count_list_one:
  "distinct xs \<Longrightarrow> x \<in> set xs \<Longrightarrow> count_list xs x = 1"
  by (induction xs) auto

text \<open>
  C8, as stated, fails: the shutdown clears no container, so a second shutdown calls
  \<open>close\<close> on the idle sandbox again.
\<close>

theorem shutdown_twice_closes_twice:
  "closed_log (snd (shutdown_event calm_env one_idle_state)) = [1]
   \<and> closed_log (snd (shutdown_event calm_env (snd (shutdown_event calm_env one_idle_state))))
       = [1, 1]"
  unfolding one_idle_state_eq
  by (simp add: shutdown_event_def cleanup_sandboxes_def calm_env_def)

text \<open>
  C8, amended. When no \<open>close\<close> of a held sandbox raises, a shutdown calls \<open>close\<close> once
  for every entry of the idle queues, the active set and the session registry, in that
  order, and changes nothing else; a sandbox held once is closed exactly once. The
  containers keep their contents, so a second shutdown closes the same sandboxes again.
\<close>

theorem shutdown_closes_each_held_once:
  assumes "\<forall>sandbox \<in> set (held_sandboxes st). Sandbox_close env sandbox = None"
  shows "shutdown_event env st = (None, st\<lparr>closed_log := closed_log st @ held_sandboxes st\<rparr>)
         \<and> shutdown_event env (snd (shutdown_event env st)) =
             (None, st\<lparr>closed_log := closed_log st @ held_sandboxes st @ held_sandboxes st\<rparr>)
         \<and> (distinct (held_sandboxes st) \<longrightarrow>
              (\<forall>sandbox \<in> set (held_sandboxes st).
                 count_list (held_sandboxes st) sandbox = 1))"
proof -
  have one: "cleanup_sandboxes env s = (None, s\<lparr>closed_log := closed_log s @ held_sandboxes s\<rparr>)"
    if "\<forall>sandbox \<in> set (held_sandboxes s). Sandbox_close env sandbox = None" for s
  proof -
    have a: "\<forall>sandbox \<in> set (concat (map snd (available_sandboxes s))).
               Sandbox_close env sandbox = None"
      and b: "\<forall>sandbox \<in> set (map snd (active_sandboxes s)). Sandbox_close env sandbox = None"
      and c: "\<forall>sandbox \<in> set (map snd (session_sandboxes s)). Sandbox_close env sandbox = None"
      using that by (auto simp: held_sandboxes_def)
    show ?thesis
      by (simp add: cleanup_sandboxes_def close_all_ok [OF a] close_all_ok [OF b]
            close_all_ok [OF c] held_sandboxes_def)
  qed
  have h: "held_sandboxes (st\<lparr>closed_log := xs\<rparr>) = held_sandboxes st" for xs
    by (simp add: held_sandboxes_def)
  have first: "shutdown_event env st =
                 (None, st\<lparr>closed_log := closed_log st @ held_sandboxes st\<rparr>)"
    using one [OF assms] by (simp add: shutdown_event_def)
  have second: "shutdown_event env (snd (shutdown_event env st)) =
             (None, st\<lparr>closed_log := closed_log st @ held_sandboxes st @ held_sandboxes st\<rparr>)"
    using one [of "st\<lparr>closed_log := closed_log st @ held_sandboxes st\<rparr>"] assms
    by (simp add: one [OF assms] h shutdown_event_def)
  have third: "distinct (held_sandboxes st) \<longrightarrow>
              (\<forall>sandbox \<in> set (held_sandboxes st).
                 count_list (held_sandboxes st) sandbox = 1)"
    by (simp add: distinct_count_list_one)
  from first second third show ?thesis by blast
qed

theorem shutdown_closes_each_held_once_witness:
  "Sandbox_close calm_env 1 = None
   \<and> held_sandboxes one_idle_state = [1]
   \<and> distinct (held_sandboxes one_idle_state)
   \<and> shutdown_event calm_env one_idle_state = (None, one_idle_state\<lparr>closed_log := [1]\<rparr>)
   \<and> count_list (held_sandboxes one_idle_state) 1 = 1"
proof -
  have h: "held_sandboxes one_idle_state = [1]"
    by (simp add: one_idle_state_eq held_sandboxes_def)
  have c: "\<forall>sandbox \<in> set (held_sandboxes one_idle_state). Sandbox_close calm_env sandbox = None"
    by (simp add: calm_env_def)
  have e: "closed_log one_idle_state = []" by (simp add: one_idle_state_eq)
  have k: "Sandbox_close calm_env 1 = None" by (simp add: calm_env_def)
  from shutdown_closes_each_held_once [OF c] h e k show ?thesis by simp
qed

section \<open>The C handler\<close>

text \<open>
  C9. When the source file is written and the compiler exits with a code other than zero,
  \<open>execute_c\<close> returns an empty output, the error text \<^verbatim>\<open>Compilation error:\<close>, a line
  feed and the compiler's stderr, and the compiler's exit code; the only command it has
  started is the compiler, so the executable is not run.
\<close>

theorem execute_c_compilation_error:
  assumes "filesystem_write env sandbox
             (''/tmp/program_'' @ take 8 (handler_uuid4 env) @ ''.c'') src = None"
    and "start_command env sandbox
           (''gcc -o /tmp/program_'' @ take 8 (handler_uuid4 env)
              @ '' /tmp/program_'' @ take 8 (handler_uuid4 env) @ ''.c'') = Inr compile_result"
    and "proc_exit_code compile_result \<noteq> 0"
  shows "fst (execute_c env sandbox src) =
           Inr \<lparr>res_output = [],
                res_error = Some (''Compilation error:'' @ [CHR 0x0A] @ stderr compile_result),
                res_exit_code = proc_exit_code compile_result,
                res_session_id = None\<rparr>
         \<and> snd (execute_c env sandbox src) =
             [''gcc -o /tmp/program_'' @ take 8 (handler_uuid4 env)
                @ '' /tmp/program_'' @ take 8 (handler_uuid4 env) @ ''.c'']
         \<and> (''/tmp/program_'' @ take 8 (handler_uuid4 env))
               \<notin> set (snd (execute_c env sandbox src))"
  using assms by (simp add: execute_c_def Let_def)

theorem execute_c_compilation_error_witness:
  "filesystem_write gcc_fails_env 1 ''/tmp/program_abcdef01.c'' ''int main(){ return x; }'' = None
   \<and> start_command gcc_fails_env 1 ''gcc -o /tmp/program_abcdef01 /tmp/program_abcdef01.c''
       = Inr \<lparr>stdout = [], stderr = ''x undeclared'', proc_exit_code = 1\<rparr>
   \<and> fst (execute_c gcc_fails_env 1 ''int main(){ return x; }'') =
       Inr \<lparr>res_output = [],
            res_error = Some (''Compilation error:'' @ [CHR 0x0A] @ ''x undeclared''),
            res_exit_code = 1, res_session_id = None\<rparr>
   \<and> snd (execute_c gcc_fails_env 1 ''int main(){ return x; }'') =
       [''gcc -o /tmp/program_abcdef01 /tmp/program_abcdef01.c'']"
  using execute_c_compilation_error [of gcc_fails_env 1 "''int main(){ return x; }''"
      "\<lparr>stdout = [], stderr = ''x undeclared'', proc_exit_code = 1\<rparr>"]
  by (simp add: gcc_fails_env_def calm_env_def)

end
